theory Spec2Isabelle
  imports Complex_Main "HOL-Library.Sublist" "HOL-Library.Char_ord" "HOL-Library.List_Lexorder"
begin

section \<open>Python values and builtins used by the services\<close>

text \<open>
  The services of \<^verbatim>\<open>src/api/services.py\<close> work on the parsed JSON of the USDA
  FoodData Central API, which Python holds as dynamically typed values. The embedding
  keeps that: a raw record is a \<open>json\<close> value, and every attribute or type error that
  Python would raise on an unexpected shape is a branch returning an \<open>error\<close>.

  Conventions of the model:
  \<^item> Python floats are modelled as reals: rounding, infinities and NaN are outside the
    model.
  \<^item> Strings are ASCII: the case conversions and the white space of \<open>strip\<close> are the
    ASCII ones, other characters are left as they are.
  \<^item> A JSON object is the association list of the parsed dict (looked up with
    \<open>map_of\<close>).
  \<^item> Two builtins whose text-level behaviour is not fixed here are parameters of the
    model, collected in \<open>builtins\<close>: the \<open>repr\<close> of floats and containers (used by
    \<open>str\<close>) and the parsing of a string by \<open>float\<close>.
\<close>

datatype json =
    JNull
  | JBool bool
  | JInt int
  | JFloat real
  | JStr string
  | JArr "json list"
  | JObj "(string \<times> json) list"

datatype error =
    AttributeError
  | TypeError
  | ValueError
  | ValidationError
  | MultipleObjectsReturned
  | DatabaseError

record builtins =
  repr_of :: "json \<Rightarrow> string"
  float_of_str :: "string \<Rightarrow> real option"

definition ascii_lowercase :: string where
  "ascii_lowercase = ''abcdefghijklmnopqrstuvwxyz''"

definition ascii_uppercase :: string where
  "ascii_uppercase = ''ABCDEFGHIJKLMNOPQRSTUVWXYZ''"

definition is_lower :: "char \<Rightarrow> bool" where
  "is_lower c = (c \<in> set ascii_lowercase)"

definition is_upper :: "char \<Rightarrow> bool" where
  "is_upper c = (c \<in> set ascii_uppercase)"

definition to_upper :: "char \<Rightarrow> char" where
  "to_upper c = (case map_of (zip ascii_lowercase ascii_uppercase) c of
                   None \<Rightarrow> c | Some u \<Rightarrow> u)"

definition to_lower :: "char \<Rightarrow> char" where
  "to_lower c = (case map_of (zip ascii_uppercase ascii_lowercase) c of
                   None \<Rightarrow> c | Some l \<Rightarrow> l)"

text \<open>\<^verbatim>\<open>str.upper()\<close> and \<^verbatim>\<open>str.lower()\<close>.\<close>

definition upper :: "string \<Rightarrow> string" where
  "upper s = map to_upper s"

definition lower :: "string \<Rightarrow> string" where
  "lower s = map to_lower s"

text \<open>
  \<^verbatim>\<open>str.title()\<close>: a cased character is put in upper case when the character before
  it is not cased, in lower case otherwise. The flag is Python's
  \<^verbatim>\<open>previous_is_cased\<close>.
\<close>

fun title_from :: "bool \<Rightarrow> string \<Rightarrow> string" where
  "title_from prev [] = []"
| "title_from prev (c # cs) =
     (if is_lower c \<or> is_upper c
      then (if prev then to_lower c else to_upper c) # title_from True cs
      else c # title_from False cs)"

definition title :: "string \<Rightarrow> string" where
  "title s = title_from False s"

text \<open>\<^verbatim>\<open>str.strip()\<close>: the ASCII characters for which \<^verbatim>\<open>str.isspace()\<close> holds.\<close>

definition is_space :: "char \<Rightarrow> bool" where
  "is_space c = (of_char c \<in> {9, 10, 11, 12, 13, 28, 29, 30, 31, 32 :: nat})"

definition strip :: "string \<Rightarrow> string" where
  "strip s = rev (dropWhile is_space (rev (dropWhile is_space s)))"

text \<open>\<^verbatim>\<open>str(n)\<close> for an integer: its decimal digits.\<close>

definition digits :: string where
  "digits = ''0123456789''"

fun str_of_nat :: "nat \<Rightarrow> string" where
  "str_of_nat n =
     (if n < 10 then [digits ! n]
      else str_of_nat (n div 10) @ [digits ! (n mod 10)])"

declare str_of_nat.simps [simp del]

definition str_of_int :: "int \<Rightarrow> string" where
  "str_of_int i = (if i < 0 then CHR ''-'' # str_of_nat (nat (- i)) else str_of_nat (nat i))"

text \<open>\<^verbatim>\<open>str(x)\<close>.\<close>

fun py_str :: "builtins \<Rightarrow> json \<Rightarrow> string" where
  "py_str B (JStr s) = s"
| "py_str B (JInt i) = str_of_int i"
| "py_str B JNull = ''None''"
| "py_str B (JBool b) = (if b then ''True'' else ''False'')"
| "py_str B v = repr_of B v"

text \<open>Truth value of a Python object, as \<^verbatim>\<open>or\<close>, \<^verbatim>\<open>not\<close> and \<^verbatim>\<open>if\<close> take it.\<close>

fun truthy :: "json \<Rightarrow> bool" where
  "truthy JNull = False"
| "truthy (JBool b) = b"
| "truthy (JInt i) = (i \<noteq> 0)"
| "truthy (JFloat r) = (r \<noteq> 0)"
| "truthy (JStr s) = (s \<noteq> [])"
| "truthy (JArr xs) = (xs \<noteq> [])"
| "truthy (JObj kv) = (kv \<noteq> [])"

text \<open>\<^verbatim>\<open>float(x)\<close>: numbers and booleans convert, a string is parsed, anything else raises.\<close>

fun py_float :: "builtins \<Rightarrow> json \<Rightarrow> error + real" where
  "py_float B (JInt i) = Inr (of_int i)"
| "py_float B (JFloat r) = Inr r"
| "py_float B (JBool b) = Inr (if b then 1 else 0)"
| "py_float B (JStr s) = (case float_of_str B s of None \<Rightarrow> Inl ValueError | Some r \<Rightarrow> Inr r)"
| "py_float B v = Inl TypeError"

text \<open>\<^verbatim>\<open>x.get(key, default)\<close>: only a dict has the method.\<close>

fun py_get :: "json \<Rightarrow> string \<Rightarrow> json \<Rightarrow> error + json" where
  "py_get (JObj kv) k d = Inr (case map_of kv k of None \<Rightarrow> d | Some v \<Rightarrow> v)"
| "py_get v k d = Inl AttributeError"

text \<open>
  \<^verbatim>\<open>for x in v\<close>: a list gives its elements, a string its characters, a dict its keys;
  nothing else is iterable.
\<close>

fun py_iter :: "json \<Rightarrow> error + json list" where
  "py_iter (JArr xs) = Inr xs"
| "py_iter (JStr s) = Inr (map (\<lambda>c. JStr [c]) s)"
| "py_iter (JObj kv) = Inr (map (\<lambda>k. JStr k) (remdups (map fst kv)))"
| "py_iter v = Inl TypeError"

text \<open>A string method called on a value: only a \<^verbatim>\<open>str\<close> has it.\<close>

fun str_method :: "(string \<Rightarrow> string) \<Rightarrow> json \<Rightarrow> error + string" where
  "str_method f (JStr s) = Inr (f s)"
| "str_method f v = Inl AttributeError"

text \<open>Sequencing of computations that may raise.\<close>

fun bind :: "error + 'a \<Rightarrow> ('a \<Rightarrow> error + 'b) \<Rightarrow> error + 'b" where
  "bind (Inl e) f = Inl e"
| "bind (Inr x) f = f x"

section \<open>FoodAPIService: normalization of raw records\<close>

text \<open>The dictionary that \<^verbatim>\<open>_format_food_data\<close> returns.\<close>

record food_data =
  fd_fdc_id :: string
  fd_name :: string
  fd_brand_owner :: string
  fd_protein_per_100g :: real
  fd_calories_per_100g :: real
  fd_carbs_per_100g :: real
  fd_fat_per_100g :: real
  fd_fiber_per_100g :: real

definition nutrient_mapping :: "(string \<times> string) list" where
  "nutrient_mapping =
     [(''1003'', ''protein''), (''1008'', ''calories''), (''1005'', ''carbs''),
      (''1004'', ''fat''), (''1079'', ''fiber'')]"

text \<open>\<^verbatim>\<open>str(nutrient.get('nutrient', {}).get('id', ''))\<close>.\<close>

definition nutrient_id :: "builtins \<Rightarrow> json \<Rightarrow> error + string" where
  "nutrient_id B nutrient =
     bind (py_get nutrient ''nutrient'' (JObj [])) (\<lambda>info.
     bind (py_get info ''id'' (JStr [])) (\<lambda>idv. Inr (py_str B idv)))"

text \<open>\<^verbatim>\<open>nutrient.get('nutrient', {}).get('unitName', '').upper()\<close>.\<close>

definition nutrient_unit :: "json \<Rightarrow> error + string" where
  "nutrient_unit nutrient =
     bind (py_get nutrient ''nutrient'' (JObj [])) (\<lambda>info.
     bind (py_get info ''unitName'' (JStr [])) (str_method upper))"

text \<open>\<^verbatim>\<open>float(amount or 0)\<close>.\<close>

definition float_or_0 :: "builtins \<Rightarrow> json \<Rightarrow> error + real" where
  "float_or_0 B amount = py_float B (if truthy amount then amount else JInt 0)"

text \<open>
  One round of the loop over \<^verbatim>\<open>foodNutrients\<close>; \<open>m\<close> is the dict \<^verbatim>\<open>nutrients\<close>.
\<close>

definition nutrient_step :: "builtins \<Rightarrow> json \<Rightarrow> (string \<rightharpoonup> real) \<Rightarrow> error + (string \<rightharpoonup> real)" where
  "nutrient_step B nutrient m =
     bind (nutrient_id B nutrient) (\<lambda>nid.
       case map_of nutrient_mapping nid of
         None \<Rightarrow> Inr m
       | Some nutrient_name \<Rightarrow>
           bind (py_get nutrient ''amount'' (JInt 0)) (\<lambda>amount.
           bind (nutrient_unit nutrient) (\<lambda>unit.
             if unit = ''KCAL'' \<and> nutrient_name = ''calories''
             then bind (float_or_0 B amount) (\<lambda>a. Inr (m(nutrient_name \<mapsto> a)))
             else if unit = ''G''
             then bind (float_or_0 B amount) (\<lambda>a. Inr (m(nutrient_name \<mapsto> a)))
             else Inr m)))"

fun nutrient_loop :: "builtins \<Rightarrow> json list \<Rightarrow> (string \<rightharpoonup> real) \<Rightarrow> error + (string \<rightharpoonup> real)" where
  "nutrient_loop B [] m = Inr m"
| "nutrient_loop B (n # ns) m = bind (nutrient_step B n m) (nutrient_loop B ns)"

text \<open>\<^verbatim>\<open>nutrients.get(key, 0.0)\<close>.\<close>

definition get_nutrient :: "(string \<rightharpoonup> real) \<Rightarrow> string \<Rightarrow> real" where
  "get_nutrient m k = (case m k of None \<Rightarrow> 0 | Some v \<Rightarrow> v)"

text \<open>
  \<^verbatim>\<open>brand_owner[:200] if brand_owner else ''\<close>. A string is sliced; a number, a
  boolean or a dict cannot be sliced and raises. A non-empty JSON array in this
  position would be sliced and kept as a list by Python: the normalized record of the
  model holds a string here, as the \<^verbatim>\<open>FoodItem\<close> field does, so this one shape is
  outside the model, which treats it like the values that cannot be sliced.
\<close>

fun brand_slice :: "json \<Rightarrow> error + string" where
  "brand_slice (JStr s) = Inr (if s \<noteq> [] then take 200 s else [])"
| "brand_slice v = (if truthy v then Inl TypeError else Inr [])"

text \<open>
  \<^verbatim>\<open>food_data.get('foodNutrients', [])\<close>, as the \<^verbatim>\<open>for\<close> loop runs through it.
\<close>

definition food_nutrients :: "json \<Rightarrow> error + json list" where
  "food_nutrients food = bind (py_get food ''foodNutrients'' (JArr [])) py_iter"

text \<open>The body of \<^verbatim>\<open>_format_food_data\<close>, inside its \<^verbatim>\<open>try\<close>.\<close>

definition format_body :: "builtins \<Rightarrow> json \<Rightarrow> error + food_data option" where
  "format_body B food =
     bind (py_get food ''fdcId'' (JStr [])) (\<lambda>idv.
     bind (py_get food ''description'' (JStr [])) (\<lambda>d.
     bind (str_method title d) (\<lambda>name.
     bind (py_get food ''brandOwner'' (JStr [])) (\<lambda>brand_owner.
       if py_str B idv = [] \<or> name = [] then Inr None
       else
         bind (food_nutrients food) (\<lambda>fns.
         bind (nutrient_loop B fns Map.empty) (\<lambda>nutrients.
         bind (brand_slice brand_owner) (\<lambda>brand.
           Inr (Some \<lparr>fd_fdc_id = py_str B idv,
                      fd_name = take 200 name,
                      fd_brand_owner = brand,
                      fd_protein_per_100g = get_nutrient nutrients ''protein'',
                      fd_calories_per_100g = get_nutrient nutrients ''calories'',
                      fd_carbs_per_100g = get_nutrient nutrients ''carbs'',
                      fd_fat_per_100g = get_nutrient nutrients ''fat'',
                      fd_fiber_per_100g = get_nutrient nutrients ''fiber''\<rparr>))))))))"

text \<open>
  \<^verbatim>\<open>_format_food_data\<close>: every exception of the body is caught and logged, and the
  result is then \<^verbatim>\<open>None\<close>.
\<close>

definition format_food_data :: "builtins \<Rightarrow> json \<Rightarrow> food_data option" where
  "format_food_data B food = (case format_body B food of Inl e \<Rightarrow> None | Inr r \<Rightarrow> r)"

text \<open>
  What \<^verbatim>\<open>session.get\<close> followed by \<^verbatim>\<open>raise_for_status\<close> and \<^verbatim>\<open>response.json()\<close>
  yields: a \<^verbatim>\<open>RequestException\<close> (connection error, timeout, HTTP error status), a
  body that is not JSON, or the parsed payload.
\<close>

datatype response = RequestException | InvalidJson | Json json

text \<open>The loop of \<^verbatim>\<open>search_foods\<close> that collects the records that format to a dict.\<close>

fun formatted_foods :: "builtins \<Rightarrow> json list \<Rightarrow> food_data list" where
  "formatted_foods B [] = []"
| "formatted_foods B (food # foods) =
     (case format_food_data B food of
        None \<Rightarrow> formatted_foods B foods
      | Some formatted_food \<Rightarrow> formatted_food # formatted_foods B foods)"

text \<open>
  \<^verbatim>\<open>search_foods\<close>. The second component of the result is the list of queries sent
  to the USDA API: empty when the function returns before \<^verbatim>\<open>session.get\<close>. The
  argument \<open>resp\<close> is what the API call yields when it is made.
\<close>

definition search_foods :: "builtins \<Rightarrow> response \<Rightarrow> string \<Rightarrow> nat \<Rightarrow> food_data list \<times> string list" where
  "search_foods B resp query limit =
     (if length (strip query) < 2 then ([], [])
      else
        (case resp of
           RequestException \<Rightarrow> ([], [query])
         | InvalidJson \<Rightarrow> ([], [query])
         | Json data \<Rightarrow>
             (case bind (py_get data ''foods'' (JArr [])) py_iter of
                Inl e \<Rightarrow> ([], [query])
              | Inr foods \<Rightarrow> (formatted_foods B foods, [query]))))"

section \<open>The database\<close>

text \<open>
  The tables of \<^verbatim>\<open>src/api/models.py\<close>, each a list of rows. \<open>next_id\<close> is the
  auto-increment of the primary keys, \<open>writes\<close> counts the INSERT and UPDATE
  statements issued so far. Timestamps are left out.
\<close>

record food_item =
  fi_id :: nat
  fdc_id :: string
  fi_name :: string
  brand_owner :: "string option"
  protein_per_100g :: real
  calories_per_100g :: real
  carbs_per_100g :: real
  fat_per_100g :: real
  fiber_per_100g :: real

record user_profile =
  up_user :: nat
  daily_protein_goal :: real
  weight :: "real option"
  activity_level :: string

record daily_intake =
  di_id :: nat
  di_user :: nat
  di_date :: nat
  total_protein :: real
  total_calories :: real

text \<open>A row of the \<^verbatim>\<open>FoodEntry\<close> table: the related objects are held by their keys.\<close>

record entry_row =
  row_id :: nat
  row_user :: nat
  row_food_item_id :: nat
  row_daily_intake_id :: nat
  row_amount_grams :: real
  row_protein_consumed :: real
  row_calories_consumed :: real
  row_meal_type :: string

record db =
  food_items :: "food_item list"
  user_profiles :: "user_profile list"
  daily_intakes :: "daily_intake list"
  food_entries :: "entry_row list"
  next_id :: nat
  writes :: nat

section \<open>FoodCacheService\<close>

text \<open>
  \<^verbatim>\<open>FoodItem.objects.get_or_create(fdc_id=..., defaults=...)\<close>: the row with this
  \<^verbatim>\<open>fdc_id\<close> when there is one, a new row made of the defaults otherwise; more than
  one matching row raises.
\<close>

definition get_or_create :: "food_data \<Rightarrow> db \<Rightarrow> error + (food_item \<times> bool \<times> db)" where
  "get_or_create food_data d =
     (case filter (\<lambda>x. fdc_id x = fd_fdc_id food_data) (food_items d) of
        [] \<Rightarrow>
          (let x = \<lparr>fi_id = next_id d,
                    fdc_id = fd_fdc_id food_data,
                    fi_name = fd_name food_data,
                    brand_owner = Some (fd_brand_owner food_data),
                    protein_per_100g = fd_protein_per_100g food_data,
                    calories_per_100g = fd_calories_per_100g food_data,
                    carbs_per_100g = fd_carbs_per_100g food_data,
                    fat_per_100g = fd_fat_per_100g food_data,
                    fiber_per_100g = fd_fiber_per_100g food_data\<rparr>
           in Inr (x, True, d\<lparr>food_items := food_items d @ [x],
                               next_id := next_id d + 1,
                               writes := writes d + 1\<rparr>))
      | [x] \<Rightarrow> Inr (x, False, d)
      | _ \<Rightarrow> Inl MultipleObjectsReturned)"

text \<open>
  One round of the loop over \<^verbatim>\<open>food_data.items()\<close>: the field is assigned, and
  \<^verbatim>\<open>updated\<close> set, when its value differs from the one given.
\<close>

definition set_if_changed ::
  "(food_item \<Rightarrow> 'v) \<Rightarrow> ('v \<Rightarrow> food_item \<Rightarrow> food_item) \<Rightarrow> 'v \<Rightarrow> food_item \<times> bool \<Rightarrow> food_item \<times> bool" where
  "set_if_changed getattr setattr v s =
     (if getattr (fst s) \<noteq> v then (setattr v (fst s), True) else s)"

text \<open>The whole loop, in the order of the keys of the dict; \<^verbatim>\<open>fdc_id\<close> is skipped.\<close>

definition update_fields :: "food_data \<Rightarrow> food_item \<Rightarrow> food_item \<times> bool" where
  "update_fields food_data x =
     (set_if_changed fiber_per_100g (\<lambda>v y. y\<lparr>fiber_per_100g := v\<rparr>) (fd_fiber_per_100g food_data)
     (set_if_changed fat_per_100g (\<lambda>v y. y\<lparr>fat_per_100g := v\<rparr>) (fd_fat_per_100g food_data)
     (set_if_changed carbs_per_100g (\<lambda>v y. y\<lparr>carbs_per_100g := v\<rparr>) (fd_carbs_per_100g food_data)
     (set_if_changed calories_per_100g (\<lambda>v y. y\<lparr>calories_per_100g := v\<rparr>) (fd_calories_per_100g food_data)
     (set_if_changed protein_per_100g (\<lambda>v y. y\<lparr>protein_per_100g := v\<rparr>) (fd_protein_per_100g food_data)
     (set_if_changed brand_owner (\<lambda>v y. y\<lparr>brand_owner := v\<rparr>) (Some (fd_brand_owner food_data))
     (set_if_changed fi_name (\<lambda>v y. y\<lparr>fi_name := v\<rparr>) (fd_name food_data)
       (x, False))))))))"

text \<open>
  The specification's full replace, to compare the loop with: the row with every field
  but the two identifiers taken from the record.
\<close>

definition full_replace :: "food_data \<Rightarrow> food_item \<Rightarrow> food_item" where
  "full_replace r x =
     x\<lparr>fi_name := fd_name r, brand_owner := Some (fd_brand_owner r),
       protein_per_100g := fd_protein_per_100g r, calories_per_100g := fd_calories_per_100g r,
       carbs_per_100g := fd_carbs_per_100g r, fat_per_100g := fd_fat_per_100g r,
       fiber_per_100g := fd_fiber_per_100g r\<rparr>"

text \<open>\<^verbatim>\<open>food_item.save()\<close> of a row that has a primary key: an UPDATE of that row.\<close>

definition save_food_item :: "food_item \<Rightarrow> db \<Rightarrow> db" where
  "save_food_item x d =
     d\<lparr>food_items := map (\<lambda>y. if fi_id y = fi_id x then x else y) (food_items d),
       writes := writes d + 1\<rparr>"

text \<open>
  \<^verbatim>\<open>get_or_create_food_item\<close>. An exception is logged and raised again, so it is the
  result.
\<close>

definition get_or_create_food_item :: "food_data \<Rightarrow> db \<Rightarrow> error + (food_item \<times> bool \<times> db)" where
  "get_or_create_food_item food_data d =
     bind (get_or_create food_data d) (\<lambda>(food_item, created, d').
       if \<not> created then
         (case update_fields food_data food_item of
            (food_item', updated) \<Rightarrow>
              if updated then Inr (food_item', created, save_food_item food_item' d')
              else Inr (food_item', created, d'))
       else Inr (food_item, created, d'))"

section \<open>FoodSearchView\<close>

text \<open>
  \<^verbatim>\<open>FoodItem.objects.filter(name__icontains=query)\<close>, in the order of the model's
  \<^verbatim>\<open>Meta.ordering\<close>, by name.
\<close>

definition icontains :: "string \<Rightarrow> string \<Rightarrow> bool" where
  "icontains query s = sublist (lower query) (lower s)"

definition filter_name_icontains :: "string \<Rightarrow> db \<Rightarrow> food_item list" where
  "filter_name_icontains query d =
     sort_key fi_name (filter (\<lambda>x. icontains query (fi_name x)) (food_items d))"

text \<open>
  The loop that caches the API results: an exception of
  \<^verbatim>\<open>get_or_create_food_item\<close> is logged and the loop goes on.
\<close>

fun cache_foods :: "food_data list \<Rightarrow> db \<Rightarrow> db" where
  "cache_foods [] d = d"
| "cache_foods (food_data # rest) d =
     (case get_or_create_food_item food_data d of
        Inl e \<Rightarrow> cache_foods rest d
      | Inr (food_item, created, d') \<Rightarrow> cache_foods rest d')"

text \<open>
  \<^verbatim>\<open>get_queryset\<close>: the rows returned, the database afterwards, and the queries
  sent to the USDA API.
\<close>

definition get_queryset ::
  "builtins \<Rightarrow> response \<Rightarrow> string \<Rightarrow> db \<Rightarrow> food_item list \<times> db \<times> string list" where
  "get_queryset B resp query d =
     (if length query < 2 then ([], d, [])
      else
        (let local_results = take 10 (filter_name_icontains query d) in
         if length local_results < 5 then
           (case search_foods B resp query 10 of
              (api_results, sent) \<Rightarrow>
                (let d' = cache_foods api_results d
                 in (take 20 (filter_name_icontains query d'), d', sent)))
         else (take 20 (filter_name_icontains query d), d, [])))"

section \<open>DailyIntake and FoodEntry\<close>

text \<open>
  \<^verbatim>\<open>DailyIntake.protein_percentage\<close>. \<^verbatim>\<open>hasattr(self.user, 'userprofile')\<close> is the
  lookup of the profile of the user.
\<close>

definition userprofile :: "db \<Rightarrow> nat \<Rightarrow> user_profile option" where
  "userprofile d u = find (\<lambda>p. up_user p = u) (user_profiles d)"

definition protein_percentage :: "db \<Rightarrow> daily_intake \<Rightarrow> real" where
  "protein_percentage d self =
     (case userprofile d (di_user self) of
        Some profile \<Rightarrow>
          (let goal = daily_protein_goal profile
           in if goal > 0 then total_protein self / goal * 100 else 0)
      | None \<Rightarrow> 0)"

text \<open>
  A \<^verbatim>\<open>FoodEntry\<close> instance: the related \<^verbatim>\<open>FoodItem\<close> and \<^verbatim>\<open>DailyIntake\<close> are the
  objects that the instance holds; \<open>fe_id\<close> is \<open>None\<close> until the first save.
\<close>

record food_entry =
  fe_id :: "nat option"
  fe_user :: nat
  food_item :: food_item
  daily_intake :: daily_intake
  amount_grams :: real
  protein_consumed :: real
  calories_consumed :: real
  meal_type :: string

definition entry_row_of :: "nat \<Rightarrow> food_entry \<Rightarrow> entry_row" where
  "entry_row_of k self =
     \<lparr>row_id = k,
      row_user = fe_user self,
      row_food_item_id = fi_id (food_item self),
      row_daily_intake_id = di_id (daily_intake self),
      row_amount_grams = amount_grams self,
      row_protein_consumed = protein_consumed self,
      row_calories_consumed = calories_consumed self,
      row_meal_type = meal_type self\<rparr>"

text \<open>
  \<^verbatim>\<open>Model.save\<close> of an entry (\<^verbatim>\<open>super().save()\<close>): an INSERT with a fresh key for a
  new instance; for an instance with a key, an UPDATE of its row, or an INSERT under
  that key when no row has it.
\<close>

definition super_save :: "food_entry \<Rightarrow> db \<Rightarrow> food_entry \<times> db" where
  "super_save self d =
     (case fe_id self of
        None \<Rightarrow>
          (self\<lparr>fe_id := Some (next_id d)\<rparr>,
           d\<lparr>food_entries := food_entries d @ [entry_row_of (next_id d) self],
             next_id := next_id d + 1,
             writes := writes d + 1\<rparr>)
      | Some k \<Rightarrow>
          (self,
           d\<lparr>food_entries :=
               (if k \<in> row_id ` set (food_entries d)
                then map (\<lambda>r. if row_id r = k then entry_row_of k self else r) (food_entries d)
                else food_entries d @ [entry_row_of k self]),
             writes := writes d + 1\<rparr>))"

text \<open>\<^verbatim>\<open>self.daily_intake.save()\<close>: the same, for the row of the daily intake.\<close>

definition save_daily_intake :: "daily_intake \<Rightarrow> db \<Rightarrow> db" where
  "save_daily_intake di d =
     d\<lparr>daily_intakes :=
         (if di_id di \<in> di_id ` set (daily_intakes d)
          then map (\<lambda>x. if di_id x = di_id di then di else x) (daily_intakes d)
          else daily_intakes d @ [di]),
       writes := writes d + 1\<rparr>"

text \<open>\<^verbatim>\<open>self.daily_intake.entries.all()\<close>.\<close>

definition entries_all :: "db \<Rightarrow> nat \<Rightarrow> entry_row list" where
  "entries_all d k = filter (\<lambda>r. row_daily_intake_id r = k) (food_entries d)"

text \<open>\<^verbatim>\<open>sum(...)\<close>: the additions run from the left, starting at 0.\<close>

definition py_sum :: "real list \<Rightarrow> real" where
  "py_sum xs = foldl (+) 0 xs"

text \<open>The assignments of \<^verbatim>\<open>FoodEntry.save\<close> before \<^verbatim>\<open>super().save()\<close>.\<close>

definition compute_consumed :: "food_entry \<Rightarrow> food_entry" where
  "compute_consumed self =
     self\<lparr>protein_consumed := (protein_per_100g (food_item self) * amount_grams self) / 100,
          calories_consumed := (calories_per_100g (food_item self) * amount_grams self) / 100\<rparr>"

text \<open>The totals of \<^verbatim>\<open>FoodEntry.save\<close>, assigned to the instance's daily intake.\<close>

definition recomputed :: "db \<Rightarrow> daily_intake \<Rightarrow> daily_intake" where
  "recomputed d di =
     di\<lparr>total_protein := py_sum (map row_protein_consumed (entries_all d (di_id di))),
        total_calories := py_sum (map row_calories_consumed (entries_all d (di_id di)))\<rparr>"

text \<open>\<^verbatim>\<open>FoodEntry.save\<close>.\<close>

definition save :: "food_entry \<Rightarrow> db \<Rightarrow> food_entry \<times> db" where
  "save self d =
     (case super_save (compute_consumed self) d of
        (self', d1) \<Rightarrow>
          (let di = recomputed d1 (daily_intake self')
           in (self'\<lparr>daily_intake := di\<rparr>, save_daily_intake di d1)))"

text \<open>
  \<^verbatim>\<open>FoodEntry\<close> defines no \<^verbatim>\<open>delete\<close> and the application registers no signal
  handler, so removing an entry is the \<^verbatim>\<open>Model.delete\<close> it inherits: the row goes,
  nothing else is written.
\<close>

definition delete :: "food_entry \<Rightarrow> db \<Rightarrow> db" where
  "delete self d =
     d\<lparr>food_entries := filter (\<lambda>r. Some (row_id r) \<noteq> fe_id self) (food_entries d),
       writes := writes d + 1\<rparr>"

text \<open>
  The two writes of \<^verbatim>\<open>FoodEntry.save\<close> are two statements, each committed on its own
  (the source opens no transaction), and each can fail with a database error. \<open>fault\<close>
  says which one does; the database returned is the one left behind.
\<close>

datatype fault = NoFault | EntryWriteFails | TotalsWriteFails

definition save_with_fault :: "fault \<Rightarrow> food_entry \<Rightarrow> db \<Rightarrow> (error + food_entry) \<times> db" where
  "save_with_fault f self d =
     (if f = EntryWriteFails then (Inl DatabaseError, d)
      else
        (case super_save (compute_consumed self) d of
           (self', d1) \<Rightarrow>
             (let di = recomputed d1 (daily_intake self')
              in if f = TotalsWriteFails then (Inl DatabaseError, d1)
                 else (Inr (self'\<lparr>daily_intake := di\<rparr>), save_daily_intake di d1))))"



section \<open>Concrete data\<close>

text \<open>The inputs at which the theorems below are evaluated.\<close>

definition py :: builtins where
  "py = \<lparr>repr_of = (\<lambda>v. ''?''), float_of_str = (\<lambda>s. None)\<rparr>"

definition chicken :: food_item where
  "chicken = \<lparr>fi_id = 1, fdc_id = ''171077'', fi_name = ''Chicken'', brand_owner = None,
     protein_per_100g = 20, calories_per_100g = 120, carbs_per_100g = 0,
     fat_per_100g = 3, fiber_per_100g = 0\<rparr>"

definition rice :: food_item where
  "rice = \<lparr>fi_id = 2, fdc_id = ''169756'', fi_name = ''Rice'', brand_owner = None,
     protein_per_100g = 10, calories_per_100g = 360, carbs_per_100g = 80,
     fat_per_100g = 1, fiber_per_100g = 1\<rparr>"

definition today :: daily_intake where
  "today = \<lparr>di_id = 3, di_user = 1, di_date = 0, total_protein = 0, total_calories = 0\<rparr>"

definition db0 :: db where
  "db0 = \<lparr>food_items = [chicken, rice], user_profiles = [], daily_intakes = [today],
          food_entries = [], next_id = 4, writes = 0\<rparr>"

definition log_chicken :: food_entry where
  "log_chicken = \<lparr>fe_id = None, fe_user = 1, food_item = chicken, daily_intake = today,
     amount_grams = 150, protein_consumed = 0, calories_consumed = 0, meal_type = ''lunch''\<rparr>"

definition log_rice :: food_entry where
  "log_rice = \<lparr>fe_id = None, fe_user = 1, food_item = rice, daily_intake = today,
     amount_grams = 50, protein_consumed = 0, calories_consumed = 0, meal_type = ''lunch''\<rparr>"

text \<open>A user with a goal of 50 g, a user with a goal of 0, and a day with 10 g for each.\<close>

definition db_goals :: db where
  "db_goals =
     \<lparr>food_items = [],
      user_profiles = [\<lparr>up_user = 1, daily_protein_goal = 50, weight = None,
                        activity_level = ''moderate''\<rparr>,
                       \<lparr>up_user = 2, daily_protein_goal = 0, weight = None,
                        activity_level = ''moderate''\<rparr>],
      daily_intakes = [], food_entries = [], next_id = 1, writes = 0\<rparr>"

definition ten_grams_of :: "nat \<Rightarrow> daily_intake" where
  "ten_grams_of u = \<lparr>di_id = 1, di_user = u, di_date = 0, total_protein = 10, total_calories = 0\<rparr>"

text \<open>A raw record whose external identifier is \<^verbatim>\<open>null\<close>.\<close>

definition null_id_raw :: json where
  "null_id_raw = JObj [(''fdcId'', JNull), (''description'', JStr ''oats'')]"

text \<open>A raw record whose energy value is tagged with grams.\<close>

definition energy_in_grams :: json where
  "energy_in_grams =
     JObj [(''fdcId'', JInt 1), (''description'', JStr ''oil''),
           (''foodNutrients'', JArr [
              JObj [(''nutrient'', JObj [(''id'', JInt 1008), (''unitName'', JStr ''g'')]),
                    (''amount'', JInt 250)]])]"

text \<open>The scenario of the specification for the upsert: a cached item and a record with another protein value.\<close>

definition x123_old :: food_item where
  "x123_old = \<lparr>fi_id = 1, fdc_id = ''X123'', fi_name = ''Tofu'', brand_owner = Some [],
     protein_per_100g = 10, calories_per_100g = 80, carbs_per_100g = 2,
     fat_per_100g = 5, fiber_per_100g = 1\<rparr>"

definition x123_new :: food_data where
  "x123_new = \<lparr>fd_fdc_id = ''X123'', fd_name = ''Tofu'', fd_brand_owner = [],
     fd_protein_per_100g = 15, fd_calories_per_100g = 80, fd_carbs_per_100g = 2,
     fd_fat_per_100g = 5, fd_fiber_per_100g = 1\<rparr>"

definition catalog :: db where
  "catalog = \<lparr>food_items = [x123_old], user_profiles = [], daily_intakes = [],
     food_entries = [], next_id = 2, writes = 1\<rparr>"

text \<open>Three local matches for the query \<open>chicken\<close>.\<close>

definition breast :: food_item where
  "breast = \<lparr>fi_id = 1, fdc_id = ''171077'', fi_name = ''Chicken Breast'', brand_owner = None,
     protein_per_100g = 31, calories_per_100g = 165, carbs_per_100g = 0,
     fat_per_100g = 4, fiber_per_100g = 0\<rparr>"

definition thigh :: food_item where
  "thigh = \<lparr>fi_id = 2, fdc_id = ''172385'', fi_name = ''Chicken Thigh'', brand_owner = None,
     protein_per_100g = 25, calories_per_100g = 179, carbs_per_100g = 0,
     fat_per_100g = 8, fiber_per_100g = 0\<rparr>"

definition roast :: food_item where
  "roast = \<lparr>fi_id = 3, fdc_id = ''171534'', fi_name = ''Roast Chicken'', brand_owner = None,
     protein_per_100g = 27, calories_per_100g = 190, carbs_per_100g = 0,
     fat_per_100g = 7, fiber_per_100g = 0\<rparr>"

definition chicken_db :: db where
  "chicken_db = \<lparr>food_items = [roast, breast, thigh], user_profiles = [], daily_intakes = [],
     food_entries = [], next_id = 4, writes = 3\<rparr>"


definition oats_raw :: json where
  "oats_raw =
     JObj [(''fdcId'', JInt 2), (''description'', JStr ''oats''),
           (''foodNutrients'', JArr [
              JObj [(''nutrient'', JObj [(''id'', JInt 1003), (''unitName'', JStr ''g'')]),
                    (''amount'', JInt 13)],
              JObj [(''nutrient'', JObj [(''id'', JInt 1008), (''unitName'', JStr ''kcal'')]),
                    (''amount'', JInt 380)]])]"

definition oats :: food_data where
  "oats = \<lparr>fd_fdc_id = ''2'', fd_name = ''Oats'', fd_brand_owner = [],
     fd_protein_per_100g = 13, fd_calories_per_100g = 380, fd_carbs_per_100g = 0,
     fd_fat_per_100g = 0, fd_fiber_per_100g = 0\<rparr>"

definition no_id :: "(string \<times> json) list" where
  "no_id = [(''description'', JStr ''oats'')]"

section \<open>Evaluation of the string builtins\<close>

lemma str_of_int_1008: "str_of_int 1008 = ''1008''"
  by (simp add: str_of_int_def str_of_nat.simps[of 1008] str_of_nat.simps[of 100]
      str_of_nat.simps[of 10] str_of_nat.simps[of "Suc 0"] digits_def)

lemma str_of_int_1: "str_of_int 1 = ''1''"
  by (simp add: str_of_int_def str_of_nat.simps[of "Suc 0"] digits_def)

lemma upper_g: "upper ''g'' = ''G''"
  by (simp add: upper_def to_upper_def ascii_lowercase_def ascii_uppercase_def)

lemma title_oil: "title ''oil'' = ''Oil''"
  by (simp add: title_def is_lower_def is_upper_def to_upper_def to_lower_def
      ascii_lowercase_def ascii_uppercase_def)

lemma str_of_int_2: "str_of_int 2 = ''2''"
  by (simp add: str_of_int_def str_of_nat.simps[of 2] digits_def)

lemma str_of_int_1003: "str_of_int 1003 = ''1003''"
  by (simp add: str_of_int_def str_of_nat.simps[of 1003] str_of_nat.simps[of 100]
      str_of_nat.simps[of 10] str_of_nat.simps[of "Suc 0"] digits_def)

lemma upper_kcal: "upper ''kcal'' = ''KCAL''"
  by (simp add: upper_def to_upper_def ascii_lowercase_def ascii_uppercase_def)

lemma title_oats: "title ''oats'' = ''Oats''"
  by (simp add: title_def is_lower_def is_upper_def to_upper_def to_lower_def
      ascii_lowercase_def ascii_uppercase_def)

lemma lower_chicken: "lower ''chicken'' = ''chicken''"
  by (simp add: lower_def to_lower_def ascii_lowercase_def ascii_uppercase_def)

lemma lower_breast: "lower ''Chicken Breast'' = ''chicken breast''"
  by (simp add: lower_def to_lower_def ascii_lowercase_def ascii_uppercase_def)
lemma lower_thigh: "lower ''Chicken Thigh'' = ''chicken thigh''"
  by (simp add: lower_def to_lower_def ascii_lowercase_def ascii_uppercase_def)
lemma lower_roast: "lower ''Roast Chicken'' = ''roast chicken''"
  by (simp add: lower_def to_lower_def ascii_lowercase_def ascii_uppercase_def)

lemma icontains_breast: "icontains ''chicken'' ''Chicken Breast''"
  unfolding icontains_def lower_chicken lower_breast by (rule prefix_imp_sublist) simp
lemma icontains_thigh: "icontains ''chicken'' ''Chicken Thigh''"
  unfolding icontains_def lower_chicken lower_thigh by (rule prefix_imp_sublist) simp
lemma icontains_roast: "icontains ''chicken'' ''Roast Chicken''"
  unfolding icontains_def lower_chicken lower_roast by (rule suffix_imp_sublist) (simp add: suffix_def)

lemma local_chicken: "filter_name_icontains ''chicken'' chicken_db = [breast, thigh, roast]"
  by (simp add: filter_name_icontains_def chicken_db_def icontains_breast icontains_thigh icontains_roast breast_def thigh_def roast_def
      less_eq_char_def less_char_def)


section \<open>FoodEntry.save\<close>

lemma py_sum_eq: "py_sum xs = sum_list xs"
proof -
  have "foldl (+) a xs = a + sum_list xs" for a :: real
    by (induction xs arbitrary: a) simp_all
  then show ?thesis by (simp add: py_sum_def)
qed

lemma super_save_fields:
  "protein_consumed (fst (super_save self d)) = protein_consumed self"
  "calories_consumed (fst (super_save self d)) = calories_consumed self"
  "daily_intake (fst (super_save self d)) = daily_intake self"
  by (simp_all add: super_save_def split: option.splits)

lemma super_save_row:
  "\<exists>k. fe_id (fst (super_save self d)) = Some k \<and>
       entry_row_of k self \<in> set (food_entries (snd (super_save self d)))"
  by (auto simp: super_save_def split: option.splits)

lemma super_save_intakes: "daily_intakes (snd (super_save self d)) = daily_intakes d"
  by (simp add: super_save_def split: option.splits)

lemma save_daily_intake_entries: "food_entries (save_daily_intake di d) = food_entries d"
  by (simp add: save_daily_intake_def)

lemma compute_consumed_daily_intake: "daily_intake (compute_consumed self) = daily_intake self"
  by (simp add: compute_consumed_def)

lemma find_replaced:
  "\<exists>x \<in> set xs. di_id x = di_id di \<Longrightarrow>
   find (\<lambda>x. di_id x = di_id di) (map (\<lambda>x. if di_id x = di_id di then di else x) xs) = Some di"
  by (induction xs) auto

lemma find_appended:
  "\<forall>x \<in> set xs. di_id x \<noteq> k \<Longrightarrow> di_id di = k \<Longrightarrow>
   find (\<lambda>x. di_id x = k) (xs @ [di]) = Some di"
  by (induction xs) auto

lemma find_save_daily_intake:
  "find (\<lambda>x. di_id x = di_id di) (daily_intakes (save_daily_intake di d)) = Some di"
proof (cases "di_id di \<in> di_id ` set (daily_intakes d)")
  case True
  then have "\<exists>x \<in> set (daily_intakes d). di_id x = di_id di" by auto
  then show ?thesis using True by (simp add: save_daily_intake_def find_replaced)
next
  case False
  then have "\<forall>x \<in> set (daily_intakes d). di_id x \<noteq> di_id di" by (metis image_eqI)
  then show ?thesis using False by (simp add: save_daily_intake_def find_appended)
qed

text \<open>
  After a save, the row of the entry's daily intake holds the sums over the entries
  of that day as they are then.
\<close>

lemma save_totals:
  "\<exists>di. find (\<lambda>x. di_id x = di_id (daily_intake self)) (daily_intakes (snd (save self d))) = Some di
     \<and> total_protein di =
         sum_list (map row_protein_consumed (entries_all (snd (save self d)) (di_id (daily_intake self))))
     \<and> total_calories di =
         sum_list (map row_calories_consumed (entries_all (snd (save self d)) (di_id (daily_intake self))))"
proof -
  define d1 where "d1 = snd (super_save (compute_consumed self) d)"
  define di where "di = recomputed d1 (daily_intake self)"
  have id: "di_id di = di_id (daily_intake self)"
    by (simp add: di_def recomputed_def)
  have s: "snd (save self d) = save_daily_intake di d1"
    by (simp add: save_def split_beta Let_def d1_def di_def super_save_fields
        compute_consumed_daily_intake)
  have e: "entries_all (snd (save self d)) k = entries_all d1 k" for k
    by (simp add: s entries_all_def save_daily_intake_entries)
  have f: "find (\<lambda>x. di_id x = di_id (daily_intake self)) (daily_intakes (snd (save self d))) = Some di"
    using find_save_daily_intake[of di d1] by (simp add: s id)
  have p: "total_protein di =
      sum_list (map row_protein_consumed (entries_all d1 (di_id (daily_intake self))))"
    by (simp add: di_def recomputed_def py_sum_eq)
  have c: "total_calories di =
      sum_list (map row_calories_consumed (entries_all d1 (di_id (daily_intake self))))"
    by (simp add: di_def recomputed_def py_sum_eq)
  show ?thesis using f p c by (simp add: e)
qed

text \<open>
  Claim C1. The totals of a daily intake equal the sums over its entries after an entry
  is added and after an entry is removed. Adding goes through \<open>save\<close>, which
  recomputes the totals (\<open>save_totals\<close>). Removing does not: in the scenario of the
  specification, 150 g of a food with 20 g of protein per 100 g and 50 g of a food
  with 10 g per 100 g are logged, which gives a total of 35; after the first entry is
  deleted the only entry left carries 5 g, and the stored total is still 35.
\<close>

theorem delete_leaves_totals_stale:
  "(case save log_chicken db0 of (e1, d1) \<Rightarrow>
      case save log_rice d1 of (e2, d2) \<Rightarrow>
        map total_protein (daily_intakes d2) = [35]
        \<and> map row_protein_consumed (entries_all (delete e1 d2) 3) = [5]
        \<and> map total_protein (daily_intakes (delete e1 d2)) = [35])"
  by (simp add: save_def super_save_def compute_consumed_def recomputed_def entries_all_def
      save_daily_intake_def delete_def entry_row_of_def py_sum_def Let_def
      log_chicken_def log_rice_def db0_def chicken_def rice_def today_def)

text \<open>
  Claim C2, as stated: the write of the entry and the write of the totals are one
  atomic unit, so that a failure leaves no entry visible. It fails: when the write of
  the totals fails, the operation raises, the entry of 30 g of protein is in the
  table, and the total of the day is still 0.
\<close>

theorem totals_write_failure_counterexample:
  "fst (save_with_fault TotalsWriteFails log_chicken db0) = Inl DatabaseError
   \<and> map row_protein_consumed
        (entries_all (snd (save_with_fault TotalsWriteFails log_chicken db0)) 3) = [30]
   \<and> map total_protein (daily_intakes (snd (save_with_fault TotalsWriteFails log_chicken db0))) = [0]"
  by (simp add: save_with_fault_def super_save_def compute_consumed_def recomputed_def
      entries_all_def entry_row_of_def Let_def log_chicken_def db0_def chicken_def today_def)

text \<open>
  Claim C2, amended: a logging operation is two writes, the entry first and the totals
  second. If the entry write fails, the operation fails and the database is unchanged.
  If the totals write fails, the operation fails, the entry is in the table as after a
  successful save, and the rows of the daily intakes are unchanged. If neither fails,
  the operation is \<open>save\<close>, and the daily intake of the entry then holds the sums over
  the entries of that day.
\<close>

theorem save_is_two_writes:
  "save_with_fault EntryWriteFails self d = (Inl DatabaseError, d)
   \<and> fst (save_with_fault TotalsWriteFails self d) = Inl DatabaseError
   \<and> food_entries (snd (save_with_fault TotalsWriteFails self d)) = food_entries (snd (save self d))
   \<and> daily_intakes (snd (save_with_fault TotalsWriteFails self d)) = daily_intakes d
   \<and> save_with_fault NoFault self d = (Inr (fst (save self d)), snd (save self d))
   \<and> (\<exists>di. find (\<lambda>x. di_id x = di_id (daily_intake self)) (daily_intakes (snd (save self d))) = Some di
        \<and> total_protein di =
            sum_list (map row_protein_consumed (entries_all (snd (save self d)) (di_id (daily_intake self))))
        \<and> total_calories di =
            sum_list (map row_calories_consumed (entries_all (snd (save self d)) (di_id (daily_intake self)))))"
proof -
  have 1: "save_with_fault EntryWriteFails self d = (Inl DatabaseError, d)"
    by (simp add: save_with_fault_def)
  have 2: "fst (save_with_fault TotalsWriteFails self d) = Inl DatabaseError"
    by (simp add: save_with_fault_def split_beta Let_def)
  have 3: "food_entries (snd (save_with_fault TotalsWriteFails self d)) = food_entries (snd (save self d))"
    by (simp add: save_with_fault_def save_def split_beta Let_def save_daily_intake_entries)
  have 4: "daily_intakes (snd (save_with_fault TotalsWriteFails self d)) = daily_intakes d"
    by (simp add: save_with_fault_def split_beta Let_def super_save_intakes)
  have 5: "save_with_fault NoFault self d = (Inr (fst (save self d)), snd (save self d))"
    by (simp add: save_with_fault_def save_def split_beta Let_def)
  show ?thesis using 1 2 3 4 5 save_totals[of self d] by blast
qed

text \<open>
  Claim C4. The entry that \<open>save\<close> writes has \<open>protein_consumed\<close> equal to the
  protein density of its food item times the amount in grams, divided by 100, and
  \<open>calories_consumed\<close> likewise: on the instance returned and in the row of the table.
  The values that the caller put in these two fields have no effect.
\<close>

theorem save_computes_consumed:
  "protein_consumed (fst (save self d)) = protein_per_100g (food_item self) * amount_grams self / 100
   \<and> calories_consumed (fst (save self d)) = calories_per_100g (food_item self) * amount_grams self / 100
   \<and> (\<exists>k. fe_id (fst (save self d)) = Some k
          \<and> entry_row_of k
               (self\<lparr>protein_consumed := protein_per_100g (food_item self) * amount_grams self / 100,
                     calories_consumed := calories_per_100g (food_item self) * amount_grams self / 100\<rparr>)
             \<in> set (food_entries (snd (save self d))))
   \<and> save (self\<lparr>protein_consumed := p, calories_consumed := c\<rparr>) d = save self d"
proof -
  obtain k where k: "fe_id (fst (super_save (compute_consumed self) d)) = Some k"
    "entry_row_of k (compute_consumed self)
       \<in> set (food_entries (snd (super_save (compute_consumed self) d)))"
    using super_save_row by blast
  have 1: "protein_consumed (fst (save self d)) =
      protein_per_100g (food_item self) * amount_grams self / 100"
    by (simp add: save_def split_beta Let_def super_save_fields compute_consumed_def)
  have 2: "calories_consumed (fst (save self d)) =
      calories_per_100g (food_item self) * amount_grams self / 100"
    by (simp add: save_def split_beta Let_def super_save_fields compute_consumed_def)
  have 3: "fe_id (fst (save self d)) = Some k"
    using k(1) by (simp add: save_def split_beta Let_def)
  have 4: "entry_row_of k (compute_consumed self) \<in> set (food_entries (snd (save self d)))"
    using k(2) by (simp add: save_def split_beta Let_def save_daily_intake_entries)
  have 5: "compute_consumed (self\<lparr>protein_consumed := p, calories_consumed := c\<rparr>) =
      compute_consumed self"
    by (simp add: compute_consumed_def)
  have 6: "save (self\<lparr>protein_consumed := p, calories_consumed := c\<rparr>) d = save self d"
    by (simp add: save_def 5)
  from 4 have 7: "entry_row_of k
      (self\<lparr>protein_consumed := protein_per_100g (food_item self) * amount_grams self / 100,
            calories_consumed := calories_per_100g (food_item self) * amount_grams self / 100\<rparr>)
      \<in> set (food_entries (snd (save self d)))"
    by (simp add: compute_consumed_def)
  from 1 2 3 6 7 show ?thesis by blast
qed

section \<open>Validation of the amount\<close>




section \<open>DailyIntake.protein\_percentage\<close>

text \<open>
  Claim C6. The percentage is 0 when the user has no profile or the daily protein goal
  is 0, and the total protein divided by the goal times 100 otherwise. The goal of a
  profile is not negative: the validators of the field keep it between 10 and 500.
\<close>

theorem protein_percentage_value:
  assumes "\<forall>profile. userprofile d (di_user self) = Some profile \<longrightarrow>
             0 \<le> daily_protein_goal profile"
  shows "protein_percentage d self =
     (case userprofile d (di_user self) of
        None \<Rightarrow> 0
      | Some profile \<Rightarrow>
          if daily_protein_goal profile = 0 then 0
          else total_protein self / daily_protein_goal profile * 100)"
  using assms by (auto simp: protein_percentage_def Let_def split: option.splits)

theorem protein_percentage_value_witness:
  "map_option daily_protein_goal (userprofile db_goals (di_user (ten_grams_of 1))) = Some 50
   \<and> protein_percentage db_goals (ten_grams_of 1) = 20
   \<and> map_option daily_protein_goal (userprofile db_goals (di_user (ten_grams_of 2))) = Some 0
   \<and> protein_percentage db_goals (ten_grams_of 2) = 0
   \<and> userprofile db_goals (di_user (ten_grams_of 3)) = None
   \<and> protein_percentage db_goals (ten_grams_of 3) = 0"
proof -
  have u1: "userprofile db_goals (di_user (ten_grams_of 1)) =
      Some \<lparr>up_user = 1, daily_protein_goal = 50, weight = None, activity_level = ''moderate''\<rparr>"
    by (simp add: userprofile_def db_goals_def ten_grams_of_def)
  have u2: "userprofile db_goals (di_user (ten_grams_of 2)) =
      Some \<lparr>up_user = 2, daily_protein_goal = 0, weight = None, activity_level = ''moderate''\<rparr>"
    by (simp add: userprofile_def db_goals_def ten_grams_of_def)
  have u3: "userprofile db_goals (di_user (ten_grams_of 3)) = None"
    by (simp add: userprofile_def db_goals_def ten_grams_of_def)
  have h1: "\<forall>profile. userprofile db_goals (di_user (ten_grams_of 1)) = Some profile \<longrightarrow>
      0 \<le> daily_protein_goal profile"
    by (simp only: u1) auto
  have h2: "\<forall>profile. userprofile db_goals (di_user (ten_grams_of 2)) = Some profile \<longrightarrow>
      0 \<le> daily_protein_goal profile"
    by (simp only: u2) auto
  have h3: "\<forall>profile. userprofile db_goals (di_user (ten_grams_of 3)) = Some profile \<longrightarrow>
      0 \<le> daily_protein_goal profile"
    by (simp only: u3) auto
  have t: "total_protein (ten_grams_of k) = 10" for k
    by (simp add: ten_grams_of_def)
  have 1: "protein_percentage db_goals (ten_grams_of 1) = 20"
    by (simp only: protein_percentage_value[OF h1] u1 t) simp
  have 2: "protein_percentage db_goals (ten_grams_of 2) = 0"
    by (simp only: protein_percentage_value[OF h2] u2 t) simp
  have 3: "protein_percentage db_goals (ten_grams_of 3) = 0"
    by (simp only: protein_percentage_value[OF h3] u3 t) simp
  show ?thesis by (simp only: u1 u2 u3 1 2 3) simp
qed

section \<open>Units of the nutrients\<close>

text \<open>
  Claim C9. A nutrient value is taken only when it carries the expected unit,
  kilocalories for the energy and grams for the others. The second branch of the unit
  test does not look at the nutrient: an energy value of 250 tagged with grams is
  stored as the calories of the record.
\<close>

theorem energy_in_grams_accepted:
  "format_food_data B energy_in_grams =
     Some \<lparr>fd_fdc_id = ''1'', fd_name = ''Oil'', fd_brand_owner = [],
           fd_protein_per_100g = 0, fd_calories_per_100g = 250, fd_carbs_per_100g = 0,
           fd_fat_per_100g = 0, fd_fiber_per_100g = 0\<rparr>"
  by (simp add: format_food_data_def format_body_def energy_in_grams_def nutrient_step_def
      nutrient_id_def nutrient_unit_def float_or_0_def nutrient_mapping_def get_nutrient_def
      food_nutrients_def
      str_of_int_1008 str_of_int_1 upper_g title_oil)

section \<open>Short queries\<close>

text \<open>
  Claim C10. For a query of fewer than 2 characters the view returns no row, sends no
  request to the USDA API and leaves the database as it is; and for a query of fewer
  than 2 characters once stripped, \<open>search_foods\<close> returns no record and sends no
  request.
\<close>

theorem short_query_is_empty:
  "(length query < 2 \<longrightarrow> get_queryset B resp query d = ([], d, []))
   \<and> (length (strip query) < 2 \<longrightarrow> search_foods B resp query limit = ([], []))"
  by (simp add: get_queryset_def search_foods_def)

theorem short_query_is_empty_witness:
  "length ''c'' < 2
   \<and> get_queryset py (Json (JObj [(''foods'', JArr [energy_in_grams])])) ''c'' db0 = ([], db0, [])
   \<and> length (strip '' c  '') < 2
   \<and> search_foods py (Json (JObj [(''foods'', JArr [energy_in_grams])])) '' c  '' 10 = ([], [])"
  using short_query_is_empty[of "''c''" py "Json (JObj [(''foods'', JArr [energy_in_grams])])" db0 10]
    short_query_is_empty[of "'' c  ''" py "Json (JObj [(''foods'', JArr [energy_in_grams])])" db0 10]
  by (simp add: strip_def is_space_def)

section \<open>FoodCacheService.get\_or\_create\_food\_item\<close>

lemma update_fields_fst: "fst (update_fields r x) = full_replace r x"
  by (simp add: update_fields_def set_if_changed_def full_replace_def)

lemma update_fields_snd: "snd (update_fields r x) = (full_replace r x \<noteq> x)"
  apply (simp add: update_fields_def set_if_changed_def full_replace_def)
  apply (cases x)
  apply auto
  done


lemma filter_unique:
  "distinct (map f xs) \<Longrightarrow> x \<in> set xs \<Longrightarrow> filter (\<lambda>y. f y = f x) xs = [x]"
proof (induction xs)
  case Nil
  then show ?case by simp
next
  case (Cons a xs)
  show ?case
  proof (cases "a = x")
    case True
    with Cons.prems have "f x \<notin> f ` set xs" by simp
    then have "\<forall>y \<in> set xs. f y \<noteq> f x" by (metis image_eqI)
    then have "filter (\<lambda>y. f y = f x) xs = []" by (simp add: filter_empty_conv)
    with True show ?thesis by simp
  next
    case False
    with Cons.prems have "x \<in> set xs" "f a \<noteq> f x" "distinct (map f xs)" by auto
    with Cons.IH show ?thesis by simp
  qed
qed

lemma replaced_keys:
  "g x' = g x \<Longrightarrow> distinct (map f xs) \<Longrightarrow> x \<in> set xs \<Longrightarrow>
   map g (map (\<lambda>y. if f y = f x then x' else y) xs) = map g xs"
proof (induction xs)
  case Nil
  then show ?case by simp
next
  case (Cons a xs)
  show ?case
  proof (cases "a = x")
    case True
    with Cons.prems have "f x \<notin> f ` set xs" by simp
    then have "\<forall>y \<in> set xs. f y \<noteq> f x" by (metis image_eqI)
    then have "map (\<lambda>y. if f y = f x then x' else y) xs = xs" by (simp add: map_idI)
    with True Cons.prems(1) show ?thesis by simp
  next
    case False
    with Cons.prems have "x \<in> set xs" "f a \<noteq> f x" "distinct (map f xs)" by auto
    with Cons.IH Cons.prems(1) show ?thesis by simp
  qed
qed

lemma replaced_member:
  "x \<in> set xs \<Longrightarrow> x' \<in> set (map (\<lambda>y. if f y = f x then x' else y) xs)"
  by (induction xs) auto

lemma full_replace_keys: "fi_id (full_replace r x) = fi_id x" "fdc_id (full_replace r x) = fdc_id x"
  by (simp_all add: full_replace_def)

lemma full_replace_idem: "full_replace r (full_replace r x) = full_replace r x"
  by (simp add: full_replace_def)

lemma get_or_create_existing:
  assumes "distinct (map fdc_id (food_items d))" "x \<in> set (food_items d)" "fdc_id x = fd_fdc_id r"
  shows "get_or_create r d = Inr (x, False, d)"
proof -
  have "filter (\<lambda>y. fdc_id y = fdc_id x) (food_items d) = [x]"
    using assms(1,2) by (rule filter_unique)
  then show ?thesis using assms(3) by (simp add: get_or_create_def)
qed

lemma upsert_existing:
  assumes "distinct (map fdc_id (food_items d))" "x \<in> set (food_items d)" "fdc_id x = fd_fdc_id r"
  shows "get_or_create_food_item r d =
     Inr (full_replace r x, False, if full_replace r x = x then d else save_food_item (full_replace r x) d)"
proof -
  have u: "update_fields r x = (full_replace r x, full_replace r x \<noteq> x)"
    by (simp add: prod_eq_iff update_fields_fst update_fields_snd)
  have g: "get_or_create r d = Inr (x, False, d)"
    using assms by (rule get_or_create_existing)
  show ?thesis
  proof (cases "full_replace r x = x")
    case True
    have "update_fields r x = (x, False)" by (simp add: u True)
    then show ?thesis by (simp add: get_or_create_food_item_def g True)
  next
    case False
    have "update_fields r x = (full_replace r x, True)" by (simp add: u False)
    then show ?thesis by (simp add: get_or_create_food_item_def g False)
  qed
qed

text \<open>
  Claim C3. Upserting a record whose external identifier is already in the catalog
  returns the item with \<open>created = False\<close>; afterwards exactly one row has that
  identifier, and its other fields are those of the record. When the row already had
  those fields nothing is written, and otherwise there is one write; upserting the
  same record once more returns the same item and leaves the database as it is. The
  primary key and the external identifier are unique in the table, as the database
  constrains them.
\<close>

theorem upsert_replaces_existing:
  assumes pk: "distinct (map fi_id (food_items d))"
    and uq: "distinct (map fdc_id (food_items d))"
    and ex: "x \<in> set (food_items d)"
    and same: "fdc_id x = fd_fdc_id r"
  shows "\<exists>d'. get_or_create_food_item r d = Inr (full_replace r x, False, d')
     \<and> filter (\<lambda>y. fdc_id y = fd_fdc_id r) (food_items d') = [full_replace r x]
     \<and> length (food_items d') = length (food_items d)
     \<and> (if full_replace r x = x then d' = d else writes d' = writes d + 1)
     \<and> get_or_create_food_item r d' = Inr (full_replace r x, False, d')"
proof -
  define x' where "x' = full_replace r x"
  define d' where "d' = (if x' = x then d else save_food_item x' d)"
  have k: "fi_id x' = fi_id x" "fdc_id x' = fdc_id x"
    by (simp_all add: x'_def full_replace_keys)
  have 1: "get_or_create_food_item r d = Inr (x', False, d')"
    unfolding x'_def d'_def using upsert_existing[OF uq ex same] by simp
  have items: "food_items d' = (if x' = x then food_items d
      else map (\<lambda>y. if fi_id y = fi_id x then x' else y) (food_items d))"
    by (simp add: d'_def save_food_item_def k)
  have mem: "x' \<in> set (food_items d')"
    using ex replaced_member[of x "food_items d" x' fi_id] by (auto simp: items)
  have mk: "map fdc_id (map (\<lambda>y. if fi_id y = fi_id x then x' else y) (food_items d)) =
      map fdc_id (food_items d)"
    by (rule replaced_keys[OF k(2) pk ex])
  have uq': "distinct (map fdc_id (food_items d'))"
  proof (cases "x' = x")
    case True
    then show ?thesis using uq by (simp add: items)
  next
    case False
    then show ?thesis using uq mk by (simp only: items if_False)
  qed
  have 2: "filter (\<lambda>y. fdc_id y = fd_fdc_id r) (food_items d') = [x']"
    using filter_unique[OF uq' mem] by (simp add: k same)
  have 3: "length (food_items d') = length (food_items d)"
    by (simp add: items)
  have 4: "if x' = x then d' = d else writes d' = writes d + 1"
    by (simp add: d'_def save_food_item_def)
  have "get_or_create_food_item r d' =
      Inr (full_replace r x', False, if full_replace r x' = x' then d' else save_food_item (full_replace r x') d')"
    using upsert_existing[OF uq' mem] by (simp add: k same)
  then have 5: "get_or_create_food_item r d' = Inr (x', False, d')"
    by (simp add: x'_def full_replace_idem)
  from 1 2 3 4 5 show ?thesis unfolding x'_def by blast
qed

theorem upsert_replaces_existing_witness:
  "distinct (map fi_id (food_items catalog))
   \<and> distinct (map fdc_id (food_items catalog))
   \<and> x123_old \<in> set (food_items catalog)
   \<and> fdc_id x123_old = fd_fdc_id x123_new
   \<and> protein_per_100g (full_replace x123_new x123_old) = 15
   \<and> (\<exists>d'. get_or_create_food_item x123_new catalog =
               Inr (full_replace x123_new x123_old, False, d')
        \<and> filter (\<lambda>y. fdc_id y = ''X123'') (food_items d') = [full_replace x123_new x123_old]
        \<and> length (food_items d') = 1
        \<and> writes d' = 2
        \<and> get_or_create_food_item x123_new d' = Inr (full_replace x123_new x123_old, False, d'))"
proof -
  have pk: "distinct (map fi_id (food_items catalog))" by (simp add: catalog_def)
  have uq: "distinct (map fdc_id (food_items catalog))" by (simp add: catalog_def)
  have ex: "x123_old \<in> set (food_items catalog)" by (simp add: catalog_def)
  have same: "fdc_id x123_old = fd_fdc_id x123_new" by (simp add: x123_old_def x123_new_def)
  have ne: "full_replace x123_new x123_old \<noteq> x123_old"
    by (simp add: full_replace_def x123_old_def x123_new_def)
  have p: "protein_per_100g (full_replace x123_new x123_old) = 15"
    by (simp add: full_replace_def x123_new_def)
  have id: "fd_fdc_id x123_new = ''X123''" by (simp add: x123_new_def)
  have n: "length (food_items catalog) = 1" "writes catalog = 1" by (simp_all add: catalog_def)
  from upsert_replaces_existing[OF pk uq ex same] obtain d' where
    d: "get_or_create_food_item x123_new catalog = Inr (full_replace x123_new x123_old, False, d')"
      "filter (\<lambda>y. fdc_id y = fd_fdc_id x123_new) (food_items d') = [full_replace x123_new x123_old]"
      "length (food_items d') = length (food_items catalog)"
      "if full_replace x123_new x123_old = x123_old then d' = catalog else writes d' = writes catalog + 1"
      "get_or_create_food_item x123_new d' = Inr (full_replace x123_new x123_old, False, d')"
    by blast
  from d(4) ne have w: "writes d' = 2" by (simp add: n)
  from d(2) have f: "filter (\<lambda>y. fdc_id y = ''X123'') (food_items d') = [full_replace x123_new x123_old]"
    by (simp add: id)
  from d(3) have l: "length (food_items d') = 1" by (simp add: n)
  have "get_or_create_food_item x123_new catalog = Inr (full_replace x123_new x123_old, False, d')
        \<and> filter (\<lambda>y. fdc_id y = ''X123'') (food_items d') = [full_replace x123_new x123_old]
        \<and> length (food_items d') = 1
        \<and> writes d' = 2
        \<and> get_or_create_food_item x123_new d' = Inr (full_replace x123_new x123_old, False, d')"
    by (intro conjI d(1) f l w d(5))
  then have e: "\<exists>d'. get_or_create_food_item x123_new catalog = Inr (full_replace x123_new x123_old, False, d')
        \<and> filter (\<lambda>y. fdc_id y = ''X123'') (food_items d') = [full_replace x123_new x123_old]
        \<and> length (food_items d') = 1
        \<and> writes d' = 2
        \<and> get_or_create_food_item x123_new d' = Inr (full_replace x123_new x123_old, False, d')"
    by (rule exI)
  show ?thesis by (intro conjI pk uq ex same p e)
qed

section \<open>Normalization of raw records\<close>

lemma bind_Inr: "bind x f = Inr y \<Longrightarrow> \<exists>v. x = Inr v \<and> f v = Inr y"
  by (cases x) simp_all

lemma title_from_length: "length (title_from p s) = length s"
  by (induction s arbitrary: p) simp_all

lemma title_Nil: "title [] = []"
  by (simp add: title_def)

lemma formatted_foods_append:
  "formatted_foods B (xs @ ys) = formatted_foods B xs @ formatted_foods B ys"
  by (induction xs) (simp_all split: option.splits)

lemma formatted_foods_origin:
  "r \<in> set (formatted_foods B foods) \<Longrightarrow> \<exists>food \<in> set foods. format_food_data B food = Some r"
  by (induction foods) (auto split: option.splits)

text \<open>
  A record is dropped when its identifier renders as the empty string, which is the
  case of an absent \<^verbatim>\<open>fdcId\<close>, or when its description is absent, empty or not a
  string.
\<close>

lemma format_without_id_or_name:
  assumes "py_str B (case map_of kv ''fdcId'' of None \<Rightarrow> JStr [] | Some v \<Rightarrow> v) = []
     \<or> (\<forall>s. (case map_of kv ''description'' of None \<Rightarrow> JStr [] | Some v \<Rightarrow> v) = JStr s \<longrightarrow> s = [])"
  shows "format_food_data B (JObj kv) = None"
proof (cases "str_method title (case map_of kv ''description'' of None \<Rightarrow> JStr [] | Some v \<Rightarrow> v)")
  case (Inl e)
  then show ?thesis by (simp add: format_food_data_def format_body_def)
next
  case (Inr name)
  then obtain s where s: "(case map_of kv ''description'' of None \<Rightarrow> JStr [] | Some v \<Rightarrow> v) = JStr s"
    and n: "name = title s"
    by (cases "case map_of kv ''description'' of None \<Rightarrow> JStr [] | Some v \<Rightarrow> v") auto
  from assms s have "py_str B (case map_of kv ''fdcId'' of None \<Rightarrow> JStr [] | Some v \<Rightarrow> v) = [] \<or> s = []"
    by auto
  then have "py_str B (case map_of kv ''fdcId'' of None \<Rightarrow> JStr [] | Some v \<Rightarrow> v) = [] \<or> name = []"
    using n by (auto simp: title_Nil)
  then show ?thesis using Inr by (auto simp: format_food_data_def format_body_def)
qed

lemma format_missing:
  assumes "map_of kv ''fdcId'' = None \<or> map_of kv ''description'' = None"
  shows "format_food_data B (JObj kv) = None"
  using assms by (intro format_without_id_or_name) auto

lemma formatted_foods_complete:
  "food \<in> set foods \<Longrightarrow> format_food_data B food = Some r \<Longrightarrow> r \<in> set (formatted_foods B foods)"
  by (induction foods) (auto split: option.splits)

lemma mapping_inj:
  "map_of nutrient_mapping i = Some key \<Longrightarrow> map_of nutrient_mapping j = Some key \<Longrightarrow> i = j"
  by (auto simp: nutrient_mapping_def split: if_splits)

lemma nutrient_step_other:
  assumes step: "nutrient_step B n m = Inr m'"
    and other: "nutrient_id B n \<noteq> Inr nid"
    and key: "map_of nutrient_mapping nid = Some key"
  shows "m' key = m key"
proof -
  from step obtain i where i: "nutrient_id B n = Inr i"
    and rest: "(case map_of nutrient_mapping i of
         None \<Rightarrow> Inr m
       | Some nutrient_name \<Rightarrow>
           bind (py_get n ''amount'' (JInt 0)) (\<lambda>amount.
           bind (nutrient_unit n) (\<lambda>unit.
             if unit = ''KCAL'' \<and> nutrient_name = ''calories''
             then bind (float_or_0 B amount) (\<lambda>a. Inr (m(nutrient_name \<mapsto> a)))
             else if unit = ''G''
             then bind (float_or_0 B amount) (\<lambda>a. Inr (m(nutrient_name \<mapsto> a)))
             else Inr m))) = Inr m'"
    unfolding nutrient_step_def by (blast dest: bind_Inr)
  show ?thesis
  proof (cases "map_of nutrient_mapping i")
    case None
    with rest show ?thesis by simp
  next
    case (Some name)
    have ne: "name \<noteq> key"
      using Some key mapping_inj[of i name nid] i other by auto
    from rest Some obtain amount unit where
      r: "(if unit = ''KCAL'' \<and> name = ''calories''
             then bind (float_or_0 B amount) (\<lambda>a. Inr (m(name \<mapsto> a)))
             else if unit = ''G''
             then bind (float_or_0 B amount) (\<lambda>a. Inr (m(name \<mapsto> a)))
             else Inr m) = Inr m'"
      by (auto dest!: bind_Inr)
    then have "m' = m \<or> (\<exists>a. m' = m(name \<mapsto> a))"
      by (auto split: if_splits dest!: bind_Inr)
    with ne show ?thesis by auto
  qed
qed

lemma nutrient_loop_other:
  "nutrient_loop B ns m = Inr m' \<Longrightarrow> \<forall>n \<in> set ns. nutrient_id B n \<noteq> Inr nid \<Longrightarrow>
   map_of nutrient_mapping nid = Some key \<Longrightarrow> m' key = m key"
proof (induction ns arbitrary: m)
  case Nil
  then show ?case by simp
next
  case (Cons n ns)
  from Cons.prems(1) obtain m1 where s: "nutrient_step B n m = Inr m1"
    and l: "nutrient_loop B ns m1 = Inr m'"
    by (auto dest: bind_Inr)
  have "m1 key = m key"
    using nutrient_step_other[OF s _ Cons.prems(3)] Cons.prems(2) by simp
  moreover have "m' key = m1 key"
    using Cons.IH[OF l _ Cons.prems(3)] Cons.prems(2) by simp
  ultimately show ?case by simp
qed

lemma nutrient_loop_default:
  "nutrient_loop B ns Map.empty = Inr m' \<Longrightarrow> \<forall>n \<in> set ns. nutrient_id B n \<noteq> Inr nid \<Longrightarrow>
   map_of nutrient_mapping nid = Some key \<Longrightarrow> get_nutrient m' key = 0"
  using nutrient_loop_other[of B ns Map.empty m' nid key] by (simp add: get_nutrient_def)

lemma brand_slice_absent: "brand_slice (JStr []) = Inr []"
  by simp

lemma format_Some:
  assumes "format_food_data B food = Some r"
  shows "\<exists>kv s ns m. food = JObj kv
     \<and> map_of kv ''description'' = Some (JStr s)
     \<and> food_nutrients food = Inr ns
     \<and> nutrient_loop B ns Map.empty = Inr m
     \<and> brand_slice (case map_of kv ''brandOwner'' of None \<Rightarrow> JStr [] | Some v \<Rightarrow> v) = Inr (fd_brand_owner r)
     \<and> fd_name r = take 200 (title s)
     \<and> fd_protein_per_100g r = get_nutrient m ''protein''
     \<and> fd_calories_per_100g r = get_nutrient m ''calories''
     \<and> fd_carbs_per_100g r = get_nutrient m ''carbs''
     \<and> fd_fat_per_100g r = get_nutrient m ''fat''
     \<and> fd_fiber_per_100g r = get_nutrient m ''fiber''"
proof -
  from assms have b: "format_body B food = Inr (Some r)"
    by (simp add: format_food_data_def split: sum.splits)
  then obtain kv where kv: "food = JObj kv"
    by (cases food) (simp_all add: format_body_def)
  from b kv obtain name where
    name: "str_method title (case map_of kv ''description'' of None \<Rightarrow> JStr [] | Some v \<Rightarrow> v) = Inr name"
    and c: "(if py_str B (case map_of kv ''fdcId'' of None \<Rightarrow> JStr [] | Some v \<Rightarrow> v) = [] \<or> name = []
             then Inr None
             else bind (food_nutrients food) (\<lambda>fns.
                  bind (nutrient_loop B fns Map.empty) (\<lambda>nutrients.
                  bind (brand_slice (case map_of kv ''brandOwner'' of None \<Rightarrow> JStr [] | Some v \<Rightarrow> v)) (\<lambda>brand.
                    Inr (Some \<lparr>fd_fdc_id = py_str B (case map_of kv ''fdcId'' of None \<Rightarrow> JStr [] | Some v \<Rightarrow> v),
                      fd_name = take 200 name,
                      fd_brand_owner = brand,
                      fd_protein_per_100g = get_nutrient nutrients ''protein'',
                      fd_calories_per_100g = get_nutrient nutrients ''calories'',
                      fd_carbs_per_100g = get_nutrient nutrients ''carbs'',
                      fd_fat_per_100g = get_nutrient nutrients ''fat'',
                      fd_fiber_per_100g = get_nutrient nutrients ''fiber''\<rparr>))))) = Inr (Some r)"
    by (auto simp: format_body_def dest!: bind_Inr)
  from c have nonempty: "name \<noteq> []" by (auto split: if_splits)
  from name obtain s where s: "(case map_of kv ''description'' of None \<Rightarrow> JStr [] | Some v \<Rightarrow> v) = JStr s"
    and ns: "name = title s"
    by (cases "case map_of kv ''description'' of None \<Rightarrow> JStr [] | Some v \<Rightarrow> v") auto
  have d: "map_of kv ''description'' = Some (JStr s)"
    using s ns nonempty by (auto simp: title_Nil split: option.splits)
  from c obtain fns m brand where
    f: "food_nutrients food = Inr fns" and l: "nutrient_loop B fns Map.empty = Inr m"
    and bs: "brand_slice (case map_of kv ''brandOwner'' of None \<Rightarrow> JStr [] | Some v \<Rightarrow> v) = Inr brand"
    and r: "r = \<lparr>fd_fdc_id = py_str B (case map_of kv ''fdcId'' of None \<Rightarrow> JStr [] | Some v \<Rightarrow> v),
                      fd_name = take 200 name,
                      fd_brand_owner = brand,
                      fd_protein_per_100g = get_nutrient m ''protein'',
                      fd_calories_per_100g = get_nutrient m ''calories'',
                      fd_carbs_per_100g = get_nutrient m ''carbs'',
                      fd_fat_per_100g = get_nutrient m ''fat'',
                      fd_fiber_per_100g = get_nutrient m ''fiber''\<rparr>"
    by (auto split: if_splits dest!: bind_Inr)
  show ?thesis
    using kv d f l bs by (simp add: r ns)
qed

lemma brand_slice_length: "brand_slice v = Inr b \<Longrightarrow> length b \<le> 200"
  by (cases v) (auto split: if_splits)

text \<open>
  What the formatting does for a record whose \<^verbatim>\<open>fdcId\<close> or \<^verbatim>\<open>description\<close> key is
  absent, and for the records it returns: the first formats to nothing, no error is
  raised, and the records before and after it are processed as if it were not there.
  Every record that a search returns is the formatting of a raw record, and a
  formatted record has: the title-cased description cut to 200 characters as its name;
  a brand of at most 200 characters, empty when the raw record has none; and each of
  the five nutrient fields equal to 0 when no entry of the raw record carries the
  identifier of that nutrient.
\<close>

lemma incomplete_records_dropped:
  "(map_of kv ''fdcId'' = None \<or> map_of kv ''description'' = None \<longrightarrow>
       format_food_data B (JObj kv) = None
     \<and> formatted_foods B (before @ JObj kv # after) =
         formatted_foods B before @ formatted_foods B after
     \<and> search_foods B (Json (JObj [(''foods'', JArr (before @ JObj kv # after))])) query limit =
         search_foods B (Json (JObj [(''foods'', JArr (before @ after))])) query limit)
   \<and> (r \<in> set (fst (search_foods B resp query limit)) \<longrightarrow>
        (\<exists>raw. format_food_data B raw = Some r))
   \<and> (format_food_data B food = Some r \<longrightarrow>
        (\<exists>fields s ns. food = JObj fields
          \<and> map_of fields ''description'' = Some (JStr s)
          \<and> fd_name r = take 200 (title s)
          \<and> length (fd_name r) \<le> 200
          \<and> (map_of fields ''brandOwner'' = None \<longrightarrow> fd_brand_owner r = [])
          \<and> length (fd_brand_owner r) \<le> 200
          \<and> food_nutrients food = Inr ns
          \<and> ((\<forall>n \<in> set ns. nutrient_id B n \<noteq> Inr ''1003'') \<longrightarrow> fd_protein_per_100g r = 0)
          \<and> ((\<forall>n \<in> set ns. nutrient_id B n \<noteq> Inr ''1008'') \<longrightarrow> fd_calories_per_100g r = 0)
          \<and> ((\<forall>n \<in> set ns. nutrient_id B n \<noteq> Inr ''1005'') \<longrightarrow> fd_carbs_per_100g r = 0)
          \<and> ((\<forall>n \<in> set ns. nutrient_id B n \<noteq> Inr ''1004'') \<longrightarrow> fd_fat_per_100g r = 0)
          \<and> ((\<forall>n \<in> set ns. nutrient_id B n \<noteq> Inr ''1079'') \<longrightarrow> fd_fiber_per_100g r = 0)))"
proof (intro conjI impI)
  assume miss: "map_of kv ''fdcId'' = None \<or> map_of kv ''description'' = None"
  show none: "format_food_data B (JObj kv) = None"
    using miss by (rule format_missing)
  show skip: "formatted_foods B (before @ JObj kv # after) =
      formatted_foods B before @ formatted_foods B after"
    by (simp add: formatted_foods_append none)
  show "search_foods B (Json (JObj [(''foods'', JArr (before @ JObj kv # after))])) query limit =
      search_foods B (Json (JObj [(''foods'', JArr (before @ after))])) query limit"
    by (simp add: search_foods_def formatted_foods_append none)
next
  assume "r \<in> set (fst (search_foods B resp query limit))"
  then obtain foods where "r \<in> set (formatted_foods B foods)"
    by (auto simp: search_foods_def split: if_splits response.splits sum.splits)
  then show "\<exists>raw. format_food_data B raw = Some r"
    using formatted_foods_origin by blast
next
  assume "format_food_data B food = Some r"
  from format_Some[OF this] obtain fields s ns m where
    f: "food = JObj fields" "map_of fields ''description'' = Some (JStr s)"
      "food_nutrients food = Inr ns" "nutrient_loop B ns Map.empty = Inr m"
      "brand_slice (case map_of fields ''brandOwner'' of None \<Rightarrow> JStr [] | Some v \<Rightarrow> v) =
         Inr (fd_brand_owner r)"
      "fd_name r = take 200 (title s)"
    and n: "fd_protein_per_100g r = get_nutrient m ''protein''"
      "fd_calories_per_100g r = get_nutrient m ''calories''"
      "fd_carbs_per_100g r = get_nutrient m ''carbs''"
      "fd_fat_per_100g r = get_nutrient m ''fat''"
      "fd_fiber_per_100g r = get_nutrient m ''fiber''"
    by blast
  have len: "length (fd_name r) \<le> 200" by (simp add: f(6))
  have brand: "map_of fields ''brandOwner'' = None \<longrightarrow> fd_brand_owner r = []"
    using f(5) by auto
  have blen: "length (fd_brand_owner r) \<le> 200"
    using f(5) by (rule brand_slice_length)
  have default: "(\<forall>n \<in> set ns. nutrient_id B n \<noteq> Inr nid) \<longrightarrow> get_nutrient m key = 0"
    if "map_of nutrient_mapping nid = Some key" for nid key
    using nutrient_loop_default[OF f(4) _ that] by blast
  have p: "(\<forall>n \<in> set ns. nutrient_id B n \<noteq> Inr ''1003'') \<longrightarrow> fd_protein_per_100g r = 0"
    using default[of "''1003''" "''protein''"] by (simp add: n nutrient_mapping_def)
  have c: "(\<forall>n \<in> set ns. nutrient_id B n \<noteq> Inr ''1008'') \<longrightarrow> fd_calories_per_100g r = 0"
    using default[of "''1008''" "''calories''"] by (simp add: n nutrient_mapping_def)
  have cb: "(\<forall>n \<in> set ns. nutrient_id B n \<noteq> Inr ''1005'') \<longrightarrow> fd_carbs_per_100g r = 0"
    using default[of "''1005''" "''carbs''"] by (simp add: n nutrient_mapping_def)
  have ft: "(\<forall>n \<in> set ns. nutrient_id B n \<noteq> Inr ''1004'') \<longrightarrow> fd_fat_per_100g r = 0"
    using default[of "''1004''" "''fat''"] by (simp add: n nutrient_mapping_def)
  have fb: "(\<forall>n \<in> set ns. nutrient_id B n \<noteq> Inr ''1079'') \<longrightarrow> fd_fiber_per_100g r = 0"
    using default[of "''1079''" "''fiber''"] by (simp add: n nutrient_mapping_def)
  show "\<exists>fields s ns. food = JObj fields
          \<and> map_of fields ''description'' = Some (JStr s)
          \<and> fd_name r = take 200 (title s)
          \<and> length (fd_name r) \<le> 200
          \<and> (map_of fields ''brandOwner'' = None \<longrightarrow> fd_brand_owner r = [])
          \<and> length (fd_brand_owner r) \<le> 200
          \<and> food_nutrients food = Inr ns
          \<and> ((\<forall>n \<in> set ns. nutrient_id B n \<noteq> Inr ''1003'') \<longrightarrow> fd_protein_per_100g r = 0)
          \<and> ((\<forall>n \<in> set ns. nutrient_id B n \<noteq> Inr ''1008'') \<longrightarrow> fd_calories_per_100g r = 0)
          \<and> ((\<forall>n \<in> set ns. nutrient_id B n \<noteq> Inr ''1005'') \<longrightarrow> fd_carbs_per_100g r = 0)
          \<and> ((\<forall>n \<in> set ns. nutrient_id B n \<noteq> Inr ''1004'') \<longrightarrow> fd_fat_per_100g r = 0)
          \<and> ((\<forall>n \<in> set ns. nutrient_id B n \<noteq> Inr ''1079'') \<longrightarrow> fd_fiber_per_100g r = 0)"
    by (intro exI[of _ fields] exI[of _ s] exI[of _ ns] conjI
        f(1) f(2) f(3) f(6) len brand blen p c cb ft fb)
qed

lemma format_oats: "format_food_data py oats_raw = Some oats"
  by (simp add: format_food_data_def format_body_def oats_raw_def oats_def nutrient_step_def
      nutrient_id_def nutrient_unit_def float_or_0_def nutrient_mapping_def get_nutrient_def
      food_nutrients_def str_of_int_1008 str_of_int_1003 str_of_int_2 upper_g upper_kcal title_oats)

lemma oats_nutrient_ids:
  "food_nutrients oats_raw = Inr ns \<Longrightarrow> n \<in> set ns \<Longrightarrow>
   nutrient_id py n = Inr ''1003'' \<or> nutrient_id py n = Inr ''1008''"
  by (auto simp: food_nutrients_def oats_raw_def nutrient_id_def str_of_int_1003 str_of_int_1008)

lemma incomplete_records_dropped_example:
  "map_of no_id ''fdcId'' = None
   \<and> format_food_data py (JObj no_id) = None
   \<and> search_foods py (Json (JObj [(''foods'', JArr ([oats_raw] @ JObj no_id # [energy_in_grams]))])) ''oats'' 10
      = search_foods py (Json (JObj [(''foods'', JArr ([oats_raw] @ [energy_in_grams]))])) ''oats'' 10
   \<and> format_food_data py oats_raw = Some oats
   \<and> fd_brand_owner oats = []
   \<and> fd_carbs_per_100g oats = 0 \<and> fd_fat_per_100g oats = 0 \<and> fd_fiber_per_100g oats = 0"
proof -
  have m: "map_of no_id ''fdcId'' = None" by (simp add: no_id_def)
  note t = incomplete_records_dropped[of no_id py "[oats_raw]" "[energy_in_grams]" "''oats''" 10
      oats RequestException oats_raw]
  from t m have a: "format_food_data py (JObj no_id) = None"
    and b: "search_foods py (Json (JObj [(''foods'', JArr ([oats_raw] @ JObj no_id # [energy_in_grams]))])) ''oats'' 10
      = search_foods py (Json (JObj [(''foods'', JArr ([oats_raw] @ [energy_in_grams]))])) ''oats'' 10"
    by blast+
  from t format_oats obtain ns where ns: "food_nutrients oats_raw = Inr ns"
    and cb: "(\<forall>n \<in> set ns. nutrient_id py n \<noteq> Inr ''1005'') \<longrightarrow> fd_carbs_per_100g oats = 0"
    and ft: "(\<forall>n \<in> set ns. nutrient_id py n \<noteq> Inr ''1004'') \<longrightarrow> fd_fat_per_100g oats = 0"
    and fb: "(\<forall>n \<in> set ns. nutrient_id py n \<noteq> Inr ''1079'') \<longrightarrow> fd_fiber_per_100g oats = 0"
    and br: "fd_brand_owner oats = []"
    by (auto simp: oats_raw_def)
  have "\<forall>n \<in> set ns. nutrient_id py n \<noteq> Inr ''1005'' \<and> nutrient_id py n \<noteq> Inr ''1004''
      \<and> nutrient_id py n \<noteq> Inr ''1079''"
    using oats_nutrient_ids[OF ns] by fastforce
  with cb ft fb have "fd_carbs_per_100g oats = 0" "fd_fat_per_100g oats = 0" "fd_fiber_per_100g oats = 0"
    by blast+
  with m a b br format_oats show ?thesis by blast
qed

text \<open>
  Claim C8. A raw record that is missing its external identifier or its name is
  dropped, and every record returned is normalized. A record whose identifier is
  \<^verbatim>\<open>null\<close> is missing it, and is not dropped: \<^verbatim>\<open>str\<close> renders the value as
  \<^verbatim>\<open>'None'\<close>, which the test for an empty identifier lets through, and the search
  returns a record with that text as its identifier.
\<close>

theorem null_identifier_kept:
  "format_food_data B null_id_raw =
     Some \<lparr>fd_fdc_id = ''None'', fd_name = ''Oats'', fd_brand_owner = [],
           fd_protein_per_100g = 0, fd_calories_per_100g = 0, fd_carbs_per_100g = 0,
           fd_fat_per_100g = 0, fd_fiber_per_100g = 0\<rparr>
   \<and> fst (search_foods B (Json (JObj [(''foods'', JArr [null_id_raw])])) ''oats'' limit) =
       [\<lparr>fd_fdc_id = ''None'', fd_name = ''Oats'', fd_brand_owner = [],
         fd_protein_per_100g = 0, fd_calories_per_100g = 0, fd_carbs_per_100g = 0,
         fd_fat_per_100g = 0, fd_fiber_per_100g = 0\<rparr>]"
proof -
  have f: "format_food_data B null_id_raw =
     Some \<lparr>fd_fdc_id = ''None'', fd_name = ''Oats'', fd_brand_owner = [],
           fd_protein_per_100g = 0, fd_calories_per_100g = 0, fd_carbs_per_100g = 0,
           fd_fat_per_100g = 0, fd_fiber_per_100g = 0\<rparr>"
    by (simp add: format_food_data_def format_body_def null_id_raw_def food_nutrients_def
        get_nutrient_def title_oats)
  have "length (strip ''oats'') = 4" by (simp add: strip_def is_space_def)
  then show ?thesis by (simp add: search_foods_def f)
qed

section \<open>Search with the nutrition source unavailable\<close>

lemma format_not_dict: "format_food_data B (JStr s) = None"
  by (simp add: format_food_data_def format_body_def)

lemma formatted_foods_strs: "formatted_foods B (map JStr ks) = []"
  by (induction ks) (simp_all add: format_not_dict)

lemma iter_not_array:
  assumes "\<forall>foods. v \<noteq> JArr foods"
  shows "(case py_iter v of Inl e \<Rightarrow> [] | Inr foods \<Rightarrow> formatted_foods B foods) = []"
proof (cases v)
  case (JStr s)
  have "map (\<lambda>c. JStr [c]) s = map JStr (map (\<lambda>c. [c]) s)" by simp
  then show ?thesis using JStr by (simp add: formatted_foods_strs del: map_map)
next
  case (JObj kv)
  then show ?thesis by (simp add: formatted_foods_strs)
next
  case (JArr xs)
  then show ?thesis using assms by simp
qed simp_all

lemma search_foods_unavailable:
  assumes "resp = RequestException \<or> resp = InvalidJson
     \<or> (\<exists>data. resp = Json data \<and> (\<forall>foods. py_get data ''foods'' (JArr []) \<noteq> Inr (JArr foods)))"
  shows "fst (search_foods B resp query limit) = []"
proof (cases resp)
  case (Json data)
  with assms have na: "\<forall>foods. py_get data ''foods'' (JArr []) \<noteq> Inr (JArr foods)" by simp
  show ?thesis
  proof (cases "py_get data ''foods'' (JArr [])")
    case (Inl e)
    then show ?thesis using Json by (simp add: search_foods_def)
  next
    case (Inr v)
    with na have "\<forall>foods. v \<noteq> JArr foods" by simp
    from iter_not_array[OF this, of B] show ?thesis
      using Json Inr by (simp add: search_foods_def split: sum.splits)
  qed
qed (simp_all add: search_foods_def)

text \<open>
  Claim C7. When the nutrition source cannot be reached, answers with an HTTP error or
  with a body that is not JSON, or sends a payload without a list of foods, the search
  does not fail: it returns the rows of the local catalog that match the query (the
  first 20 by name), and the catalog is unchanged.
\<close>

theorem search_falls_back_to_local:
  assumes "resp = RequestException \<or> resp = InvalidJson
     \<or> (\<exists>data. resp = Json data \<and> (\<forall>foods. py_get data ''foods'' (JArr []) \<noteq> Inr (JArr foods)))"
  shows "fst (get_queryset B resp query d) =
           (if length query < 2 then [] else take 20 (filter_name_icontains query d))
         \<and> fst (snd (get_queryset B resp query d)) = d"
proof -
  obtain sent where "search_foods B resp query 10 = ([], sent)"
    using search_foods_unavailable[OF assms, of B query 10]
    by (cases "search_foods B resp query 10") simp
  then show ?thesis by (simp add: get_queryset_def Let_def)
qed

theorem search_falls_back_to_local_witness:
  "fst (get_queryset py RequestException ''chicken'' chicken_db) = [breast, thigh, roast]
   \<and> fst (snd (get_queryset py RequestException ''chicken'' chicken_db)) = chicken_db
   \<and> fst (get_queryset py (Json (JArr [])) ''chicken'' chicken_db) = [breast, thigh, roast]
   \<and> fst (get_queryset py InvalidJson ''chicken'' chicken_db) = [breast, thigh, roast]"
  using search_falls_back_to_local[of RequestException py "''chicken''" chicken_db]
    search_falls_back_to_local[of "Json (JArr [])" py "''chicken''" chicken_db]
    search_falls_back_to_local[of InvalidJson py "''chicken''" chicken_db]
  by (simp add: local_chicken)

end
